theory Spec2Isabelle
  imports Complex_Main
begin

section \<open>Python values used by \<open>finetune/association.py\<close>\<close>

text \<open>
  Exceptions are values: every function of the model that can raise returns
  \<open>py_error + 'a\<close>, with \<open>Inl\<close> for the exception.
\<close>

datatype py_error =
    IndexError
  | KeyError
  | NameError
  | TypeError
  | ValueError
  | FinetuneError string

text \<open>
  A slice bound of Python, normalised against the length \<open>n\<close> of the sequence:
  a negative bound counts from the end, and every bound is clamped into \<open>[0, n]\<close>.
\<close>

definition slice_bound :: "nat \<Rightarrow> int \<Rightarrow> nat" where
  "slice_bound n i = (if i < 0 then nat (max 0 (int n + i)) else min n (nat i))"

text \<open>
  \<open>xs[start:stop]\<close> with step 1; \<open>stop = None\<close> runs to the end of the sequence.
  A slice never raises.
\<close>

definition py_slice :: "int \<Rightarrow> int option \<Rightarrow> 'a list \<Rightarrow> 'a list" where
  "py_slice start stop xs =
     (let n = length xs;
          lo = slice_bound n start;
          hi = (case stop of None \<Rightarrow> n | Some e \<Rightarrow> slice_bound n e)
      in take (hi - lo) (drop lo xs))"

section \<open>The trusted range of a window (\<open>Association.predict\<close>, lines 126-127 and 151-167)\<close>

definition chunk_size :: "int \<Rightarrow> int" where
  "chunk_size ml = ml - 2"

text \<open>Python's \<open>//\<close> rounds towards minus infinity, as \<open>div\<close> on \<open>int\<close> does.\<close>

definition step_size :: "int \<Rightarrow> int" where
  "step_size ml = chunk_size ml div 3"

text \<open>
  The pair \<open>(start, end)\<close> that \<open>predict\<close> slices a window with:
  \<open>start, end = 0, None\<close>, then the nested \<open>if start_of_doc\<close> / \<open>if end_of_doc\<close>.
\<close>

definition trusted_bounds :: "int \<Rightarrow> bool \<Rightarrow> bool \<Rightarrow> int \<times> int option" where
  "trusted_bounds ml start_of_doc end_of_doc =
     (if start_of_doc then
        (if end_of_doc then (0, None) else (0, Some (step_size ml * 2)))
      else
        (if end_of_doc then (step_size ml, None)
         else (step_size ml, Some (step_size ml * 2))))"

text \<open>\<open>seq[start:end]\<close> for the bounds chosen above.\<close>

definition trusted :: "int \<Rightarrow> bool \<Rightarrow> bool \<Rightarrow> 'a list \<Rightarrow> 'a list" where
  "trusted ml start_of_doc end_of_doc xs =
     (case trusted_bounds ml start_of_doc end_of_doc of
        (start, stop) \<Rightarrow> py_slice start stop xs)"

section \<open>Sequencing of computations that may raise\<close>

definition bind_err :: "py_error + 'a \<Rightarrow> ('a \<Rightarrow> py_error + 'b) \<Rightarrow> py_error + 'b" where
  "bind_err m f = (case m of Inl e \<Rightarrow> Inl e | Inr x \<Rightarrow> f x)"

fun map_err :: "('a \<Rightarrow> py_error + 'b) \<Rightarrow> 'a list \<Rightarrow> py_error + 'b list" where
  "map_err f [] = Inr []"
| "map_err f (x # xs) =
     bind_err (f x) (\<lambda>y. bind_err (map_err f xs) (\<lambda>ys. Inr (y # ys)))"

text \<open>\<open>xs[i]\<close>: a negative index counts from the end; out of range raises.\<close>

definition py_get :: "'a list \<Rightarrow> int \<Rightarrow> py_error + 'a" where
  "py_get xs i =
     (if 0 \<le> i \<and> i < int (length xs) then Inr (xs ! nat i)
      else if i < 0 \<and> 0 \<le> int (length xs) + i then Inr (xs ! nat (int (length xs) + i))
      else Inl IndexError)"

text \<open>\<open>dict(pairs)\<close>: a later pair with the same key replaces an earlier one.\<close>

definition py_dict :: "('k \<times> 'v) list \<Rightarrow> ('k \<rightharpoonup> 'v)" where
  "py_dict kvs = fold (\<lambda>kv d. d(fst kv \<mapsto> snd kv)) kvs Map.empty"

section \<open>The model object and its collaborators\<close>

text \<open>
  Of an \<open>EncodedOutput\<close>, \<open>predict\<close> reads \<open>token_ids\<close> (rows of two ids) and
  \<open>char_locs\<close> (the character end offset of each token, \<open>-1\<close> for padding and
  special tokens).
\<close>

record encoded_output =
  token_ids :: "nat list list"
  char_locs :: "int list"

text \<open>
  What \<open>predict\<close> reads of \<open>self\<close>. The configuration gives \<open>max_length\<close>,
  \<open>pad_token\<close> and \<open>multi_label_sequences\<close>; \<open>classes\<close> is
  \<open>input_pipeline.label_encoder.classes_\<close> and \<open>encoder_start\<close> is \<open>ENCODER.start\<close>.
  The functions are the collaborators that are not part of \<open>association.py\<close>:
  \<open>text_to_ids\<close> is \<open>input_pipeline._text_to_ids\<close>, \<open>inference\<close> is
  \<open>_inference\<close> followed by \<open>label_encoder.inverse_transform\<close> (one pair of label
  sequence and probability sequence per window), \<open>np_mean\<close> is
  \<open>np.mean(np.vstack(_), axis=0)\<close>, \<open>to_indico\<close> is \<open>finetune_to_indico_sequence\<close>
  and \<open>base_initialize\<close> is \<open>BaseModel._initialize\<close>.
\<close>

record ('c, 'l, 'p, 'v, 'r) association =
  max_length :: int
  multi_label_sequences :: bool
  multi_label :: bool
  pad_token :: 'l
  classes :: "'l list"
  encoder_start :: nat
  text_to_ids :: "'c list list \<Rightarrow> encoded_output list"
  inference :: "'c list list \<Rightarrow> ('l list \<times> 'p list) list"
  np_mean :: "'p list \<Rightarrow> py_error + 'v list"
  to_indico :: "'c list list \<Rightarrow> 'c list list list \<Rightarrow> 'l list list
                 \<Rightarrow> ('l \<rightharpoonup> 'v) list list \<Rightarrow> 'r"
  base_initialize :: "py_error + unit"

section \<open>\<open>Association._initialize\<close> (lines 109-112)\<close>

definition initialize :: "('c, 'l, 'p, 'v, 'r) association \<Rightarrow> py_error + unit" where
  "initialize self =
     (if multi_label_sequences self
      then Inl (FinetuneError ''Multi label association not supported'')
      else base_initialize self)"

section \<open>The reconciliation loop of \<open>Association.predict\<close> (lines 134-204)\<close>

text \<open>
  The locals \<open>doc_subseqs\<close>, \<open>doc_labels\<close>, \<open>doc_probs\<close> and \<open>start_of_token\<close>
  are bound together, by the first window that starts a document.
\<close>

record ('c, 'l, 'p) doc_acc =
  doc_subseqs :: "'c list list"
  doc_labels :: "'l list"
  doc_probs :: "'p list list"
  start_of_token :: int

definition fresh_doc :: "('c, 'l, 'p) doc_acc" where
  "fresh_doc = \<lparr>doc_subseqs = [], doc_labels = [], doc_probs = [], start_of_token = 0\<rparr>"

text \<open>
  The state of the loop over the windows: \<open>doc_idx\<close>, the locals of the current
  document (\<open>None\<close> while they are unbound) and the three result lists.
\<close>

record ('c, 'l, 'p, 'v) loop_state =
  doc_idx :: int
  doc :: "('c, 'l, 'p) doc_acc option"
  all_subseqs :: "'c list list list"
  all_labels :: "'l list list"
  all_probs :: "('l \<rightharpoonup> 'v) list list"

definition initial_state :: "('c, 'l, 'p, 'v) loop_state" where
  "initial_state =
     \<lparr>doc_idx = - 1, doc = None, all_subseqs = [], all_labels = [], all_probs = []\<rparr>"

text \<open>\<open>arr_encoded[i].token_ids[0][0] == ENCODER.start\<close>\<close>

definition starts_document :: "nat \<Rightarrow> encoded_output \<Rightarrow> py_error + bool" where
  "starts_document start_id enc =
     bind_err (py_get (token_ids enc) 0) (\<lambda>row.
     bind_err (py_get row 0) (\<lambda>t. Inr (t = start_id)))"

text \<open>
  The body of the inner loop (lines 174-190) for one token
  \<open>(label, position, proba)\<close> of the trusted slice.
\<close>

definition token_step ::
  "'c list list \<Rightarrow> int \<Rightarrow> ('c, 'l, 'p) doc_acc option \<Rightarrow> 'l \<times> int \<times> 'p
     \<Rightarrow> py_error + ('c, 'l, 'p) doc_acc option" where
  "token_step X d st tok =
     (case tok of (label, position, proba) \<Rightarrow>
        if position = - 1 then Inr st
        else
          (case st of
             None \<Rightarrow> Inl NameError
           | Some acc \<Rightarrow>
               bind_err
                 (if doc_subseqs acc = [] then Inr True
                  else bind_err (py_get (doc_labels acc) (- 1)) (\<lambda>l. Inr (label \<noteq> l)))
                 (\<lambda>new_subseq.
                    if new_subseq then
                      bind_err (py_get X d) (\<lambda>text.
                        Inr (Some (acc
                          \<lparr>doc_subseqs := doc_subseqs acc
                               @ [py_slice (start_of_token acc) (Some position) text],
                            doc_labels := doc_labels acc @ [label],
                            doc_probs := doc_probs acc @ [[proba]],
                            start_of_token := position\<rparr>)))
                    else
                      bind_err (py_get (doc_subseqs acc) (- 1)) (\<lambda>cur.
                      bind_err (py_get X d) (\<lambda>text.
                      bind_err (py_get (doc_probs acc) (- 1)) (\<lambda>cur_probs.
                        Inr (Some (acc
                          \<lparr>doc_subseqs := butlast (doc_subseqs acc)
                               @ [cur @ py_slice (start_of_token acc) (Some position) text],
                            doc_probs := butlast (doc_probs acc) @ [cur_probs @ [proba]],
                            start_of_token := position\<rparr>))))))))"

fun tokens_loop ::
  "'c list list \<Rightarrow> int \<Rightarrow> ('c, 'l, 'p) doc_acc option \<Rightarrow> ('l \<times> int \<times> 'p) list
     \<Rightarrow> py_error + ('c, 'l, 'p) doc_acc option" where
  "tokens_loop X d st [] = Inr st"
| "tokens_loop X d st (tok # toks) =
     bind_err (token_step X d st tok) (\<lambda>st'. tokens_loop X d st' toks)"

text \<open>
  Lines 197-200 for one span: the mean of its stacked probability vectors, paired with
  the classes; in multi-label mode the pad class is deleted.
\<close>

definition prob_dict ::
  "('c, 'l, 'p, 'v, 'r) association \<Rightarrow> 'p list \<Rightarrow> py_error + ('l \<rightharpoonup> 'v)" where
  "prob_dict self prob_seq =
     bind_err (np_mean self prob_seq) (\<lambda>probs.
       let d = py_dict (zip (classes self) probs)
       in if multi_label self then
            (case d (pad_token self) of
               None \<Rightarrow> Inl KeyError
             | Some _ \<Rightarrow> Inr (d(pad_token self := None)))
          else Inr d)"

text \<open>
  \<open>end_of_doc\<close> (lines 143-146): no window follows, or the next window starts a
  document.
\<close>

definition ends_document :: "nat \<Rightarrow> encoded_output list \<Rightarrow> nat \<Rightarrow> py_error + bool" where
  "ends_document start_id arr_encoded chunk_idx =
     (if chunk_idx + 1 \<ge> length arr_encoded then Inr True
      else bind_err (py_get arr_encoded (int chunk_idx + 1)) (starts_document start_id))"

text \<open>Lines 152-158: the first window of a document rebinds the locals of the document.\<close>

definition open_window ::
  "bool \<Rightarrow> ('c, 'l, 'p, 'v) loop_state \<Rightarrow> ('c, 'l, 'p, 'v) loop_state" where
  "open_window start_of_doc st =
     (if start_of_doc then st\<lparr>doc := Some fresh_doc, doc_idx := doc_idx st + 1\<rparr> else st)"

text \<open>Lines 169-173: the three sequences are sliced alike and zipped.\<close>

definition window_tokens ::
  "int \<Rightarrow> bool \<Rightarrow> bool \<Rightarrow> 'l list \<Rightarrow> int list \<Rightarrow> 'p list \<Rightarrow> ('l \<times> int \<times> 'p) list" where
  "window_tokens ml start_of_doc end_of_doc label_seq position_seq proba_seq =
     zip (trusted ml start_of_doc end_of_doc label_seq)
       (zip (trusted ml start_of_doc end_of_doc position_seq)
          (trusted ml start_of_doc end_of_doc proba_seq))"

text \<open>Lines 192-204: the last window of a document appends the document's results.\<close>

definition close_window ::
  "('c, 'l, 'p, 'v, 'r) association \<Rightarrow> bool \<Rightarrow> ('c, 'l, 'p, 'v) loop_state
     \<Rightarrow> ('c, 'l, 'p) doc_acc option \<Rightarrow> py_error + ('c, 'l, 'p, 'v) loop_state" where
  "close_window self end_of_doc st d =
     (if end_of_doc then
        (case d of
           None \<Rightarrow> Inl NameError
         | Some acc \<Rightarrow>
             bind_err (map_err (prob_dict self) (doc_probs acc))
               (\<lambda>prob_dicts.
                  Inr (st
                    \<lparr>doc := d,
                     all_subseqs := all_subseqs st @ [doc_subseqs acc],
                     all_labels := all_labels st @ [doc_labels acc],
                     all_probs := all_probs st @ [prob_dicts]\<rparr>)))
      else Inr (st\<lparr>doc := d\<rparr>))"

text \<open>The body of the loop over the windows (lines 141-204) for window \<open>chunk_idx\<close>.\<close>

definition chunk_step ::
  "('c, 'l, 'p, 'v, 'r) association \<Rightarrow> 'c list list \<Rightarrow> encoded_output list
     \<Rightarrow> ('c, 'l, 'p, 'v) loop_state \<Rightarrow> nat \<Rightarrow> 'l list \<times> 'p list
     \<Rightarrow> py_error + ('c, 'l, 'p, 'v) loop_state" where
  "chunk_step self X arr_encoded st chunk_idx pred =
     (case pred of (label_seq, proba_seq) \<Rightarrow>
        bind_err (py_get arr_encoded (int chunk_idx)) (\<lambda>enc.
        bind_err (starts_document (encoder_start self) enc) (\<lambda>start_of_doc.
        bind_err (ends_document (encoder_start self) arr_encoded chunk_idx) (\<lambda>end_of_doc.
          let st1 = open_window start_of_doc st
          in bind_err
               (tokens_loop X (doc_idx st1) (doc st1)
                  (window_tokens (max_length self) start_of_doc end_of_doc
                     label_seq (char_locs enc) proba_seq))
               (close_window self end_of_doc st1)))))"

fun predict_loop ::
  "('c, 'l, 'p, 'v, 'r) association \<Rightarrow> 'c list list \<Rightarrow> encoded_output list
     \<Rightarrow> ('c, 'l, 'p, 'v) loop_state \<Rightarrow> nat \<Rightarrow> ('l list \<times> 'p list) list
     \<Rightarrow> py_error + ('c, 'l, 'p, 'v) loop_state" where
  "predict_loop self X arr_encoded st chunk_idx [] = Inr st"
| "predict_loop self X arr_encoded st chunk_idx (pred # preds) =
     bind_err (chunk_step self X arr_encoded st chunk_idx pred)
       (\<lambda>st'. predict_loop self X arr_encoded st' (Suc chunk_idx) preds)"

text \<open>
  The three lists handed to \<open>finetune_to_indico_sequence\<close>: for every document its span
  texts, span labels and span probability dictionaries.
\<close>

definition reconcile ::
  "('c, 'l, 'p, 'v, 'r) association \<Rightarrow> 'c list list \<Rightarrow> encoded_output list
     \<Rightarrow> ('l list \<times> 'p list) list
     \<Rightarrow> py_error + ('c list list list \<times> 'l list list \<times> ('l \<rightharpoonup> 'v) list list)" where
  "reconcile self X arr_encoded preds =
     bind_err (predict_loop self X arr_encoded initial_state 0 preds)
       (\<lambda>st. Inr (all_subseqs st, all_labels st, all_probs st))"

section \<open>\<open>Association.predict\<close> and \<open>Association.predict_proba\<close>\<close>

definition predict :: "('c, 'l, 'p, 'v, 'r) association \<Rightarrow> 'c list list \<Rightarrow> py_error + 'r" where
  "predict self X =
     (let arr_encoded = concat (map (\<lambda>x. text_to_ids self [x]) X)
      in bind_err (reconcile self X arr_encoded (inference self X))
           (\<lambda>(subseqs, labels, probs). Inr (to_indico self X subseqs labels probs)))"

definition predict_proba ::
  "('c, 'l, 'p, 'v, 'r) association \<Rightarrow> 'c list list \<Rightarrow> py_error + 'r" where
  "predict_proba self X = predict self X"

section \<open>The mean of stacked probability vectors\<close>

text \<open>
  \<open>np.mean(np.vstack(rows), axis=0)\<close> on probability vectors, with the floating-point
  numbers idealised as reals: \<open>vstack\<close> raises on no rows and on rows of different
  lengths; the result is the elementwise arithmetic mean.
\<close>

definition np_mean_axis0 :: "real list list \<Rightarrow> py_error + real list" where
  "np_mean_axis0 rows =
     (case rows of
        [] \<Rightarrow> Inl ValueError
      | r # _ \<Rightarrow>
          if list_all (\<lambda>x. length x = length r) rows
          then Inr (map (\<lambda>j. sum_list (map (\<lambda>x. x ! j) rows) / real (length rows))
                      [0..<length r])
          else Inl ValueError)"

section \<open>Windows of a document\<close>

text \<open>
  Modelled from the spec: the window source (\<open>input_pipeline._text_to_ids\<close>) is not part
  of \<open>association.py\<close>. A window is a slice of the document's token sequence, given by
  its offset and its length; the windows of a document are listed from left to right.
\<close>

definition window_at :: "'a list \<Rightarrow> nat \<times> nat \<Rightarrow> 'a list" where
  "window_at tokens w = take (snd w) (drop (fst w) tokens)"

text \<open>
  Modelled from the spec: every window overlaps the previous one by at least
  \<open>2 * step\<close> tokens, that is, the first \<open>2 * step\<close> tokens of a window belong to the
  previous window too.
\<close>

fun overlapping :: "int \<Rightarrow> (nat \<times> nat) list \<Rightarrow> bool" where
  "overlapping ml (w1 # w2 # ws) =
     (fst w1 < fst w2 \<and>
      int (fst w2) + 2 * step_size ml \<le> int (fst w1 + snd w1) \<and>
      2 * step_size ml \<le> int (snd w2) \<and>
      overlapping ml (w2 # ws))"
| "overlapping ml ws = True"

text \<open>
  Modelled from the spec: the windows lie inside a document of \<open>n\<close> tokens, the first
  starts at its first token and the last ends at its last token.
\<close>

definition spans_document :: "nat \<Rightarrow> (nat \<times> nat) list \<Rightarrow> bool" where
  "spans_document n ws =
     (case ws of
        [] \<Rightarrow> False
      | w # _ \<Rightarrow>
          fst w = 0 \<and> fst (last ws) + snd (last ws) = n \<and>
          list_all (\<lambda>v. fst v + snd v \<le> n) ws)"

text \<open>Consecutive windows start exactly \<open>step\<close> tokens apart.\<close>

fun strided :: "int \<Rightarrow> (nat \<times> nat) list \<Rightarrow> bool" where
  "strided ml (w1 # w2 # ws) =
     (int (fst w2) = int (fst w1) + step_size ml \<and> strided ml (w2 # ws))"
| "strided ml ws = True"

text \<open>
  The tokens that \<open>predict\<close> keeps of a document, window after window: the first window
  is sliced as \<open>start_of_doc\<close>, the last as \<open>end_of_doc\<close>.
\<close>

fun kept_tokens :: "int \<Rightarrow> 'a list \<Rightarrow> bool \<Rightarrow> (nat \<times> nat) list \<Rightarrow> 'a list" where
  "kept_tokens ml tokens start_of_doc [] = []"
| "kept_tokens ml tokens start_of_doc [w] = trusted ml start_of_doc True (window_at tokens w)"
| "kept_tokens ml tokens start_of_doc (w # v # ws) =
     trusted ml start_of_doc False (window_at tokens w) @ kept_tokens ml tokens False (v # ws)"

text \<open>
  The absolute token positions that the inner loop consumes, given the \<open>char_locs\<close> of
  the whole document: a token whose position is \<open>-1\<close> is skipped (line 174).
\<close>

definition kept_positions :: "int \<Rightarrow> int list \<Rightarrow> (nat \<times> nat) list \<Rightarrow> nat list" where
  "kept_positions ml locs ws =
     map fst (filter (\<lambda>t. snd t \<noteq> - 1)
       (kept_tokens ml (zip [0..<length locs] locs) True ws))"

section \<open>The relation codec\<close>

subsection \<open>Encoding (\<open>AssociationPipeline.text_to_tokens_mask\<close>, lines 41-44)\<close>

text \<open>An argument that Python hands to a function that expects an integer.\<close>

datatype py_value = PyInt int | PySeq "int list"

text \<open>\<open>operator.index\<close>: only an integer is an index.\<close>

definition operator_index :: "py_value \<Rightarrow> py_error + int" where
  "operator_index v = (case v of PyInt n \<Rightarrow> Inr n | PySeq _ \<Rightarrow> Inl TypeError)"

text \<open>
  \<open>scipy.sparse.csr_matrix(arg1, shape)\<close> for a dense two-dimensional \<open>arg1\<close>, followed
  by \<open>toarray()\<close>. The constructor takes the entries from \<open>arg1\<close> and then reads the
  \<open>shape\<close> argument, each component through \<open>operator.index\<close>; a shape that does not
  fit the rows of \<open>arg1\<close> is refused. (The triple form
  \<open>csr_matrix((data, (row, col)))\<close> takes a tuple as \<open>arg1\<close>; the source passes the
  array.)
\<close>

definition csr_matrix_dense ::
  "int list list \<Rightarrow> py_value \<times> py_value \<Rightarrow> py_error + int list list" where
  "csr_matrix_dense arg1 shape =
     bind_err (operator_index (fst shape)) (\<lambda>m.
     bind_err (operator_index (snd shape)) (\<lambda>n.
       if m = int (length arg1) \<and> list_all (\<lambda>row. int (length row) \<le> n) arg1
       then Inr (map (\<lambda>row. row @ replicate (nat n - length row) 0) arg1)
       else Inl ValueError))"

text \<open>\<open>np.expand_dims(v, 1)\<close>\<close>

definition expand_dims_1 :: "'a list \<Rightarrow> 'a list list" where
  "expand_dims_1 v = map (\<lambda>x. [x]) v"

text \<open>
  Lines 41-43 for the labels of one window: \<open>transform\<close> is
  \<open>association_encoder.transform\<close>, which is not part of \<open>association.py\<close>.
\<close>

definition encode_associations ::
  "('t list \<Rightarrow> py_error + int list) \<Rightarrow> 'l list \<times> 't list \<times> int list \<times> int list
     \<Rightarrow> py_error + int list list" where
  "encode_associations transform labels =
     (case labels of (label, association_type, association_idx, idx) \<Rightarrow>
        bind_err (transform association_type) (\<lambda>ids.
          csr_matrix_dense (expand_dims_1 ids) (PySeq idx, PySeq association_idx)))"

subsection \<open>Decoding (\<open>Association._predict_op\<close>, lines 263-266)\<close>

text \<open>\<open>tf.softmax(_, axis=-1)\<close> on one vector of scores, over the reals.\<close>

definition tf_softmax :: "real list \<Rightarrow> real list" where
  "tf_softmax xs = map (\<lambda>x. exp x / sum_list (map exp xs)) xs"

text \<open>\<open>tf.argmax(_, axis=-1)\<close> on one vector: the smallest index of a largest score.\<close>

fun argmax_from :: "nat \<Rightarrow> nat \<Rightarrow> real \<Rightarrow> real list \<Rightarrow> nat" where
  "argmax_from i best b [] = best"
| "argmax_from i best b (x # xs) =
     (if b < x then argmax_from (Suc i) i x xs else argmax_from (Suc i) best b xs)"

definition tf_argmax :: "real list \<Rightarrow> nat" where
  "tf_argmax xs = (case xs of [] \<Rightarrow> 0 | x # r \<Rightarrow> argmax_from 1 0 x r)"

text \<open>A tensor that \<open>_predict_op\<close> returns under the key \<open>association\<close>.\<close>

datatype tf_value = TypeIds "nat list list" | Probabilities "real list list list"

text \<open>
  The \<open>association\<close> entries of the two dictionaries that \<open>_predict_op\<close> returns
  (predictions first, probabilities second). \<open>association_prob\<close> is computed and not
  returned.
\<close>

definition predict_op_association :: "real list list list \<Rightarrow> tf_value \<times> tf_value" where
  "predict_op_association associations =
     (let association_prob = map (map tf_softmax) associations;
          association_pred = map (map tf_argmax) associations
      in (TypeIds association_pred, TypeIds association_pred))"

text \<open>A score tensor of shape \<open>[l, l, t]\<close> that is one-hot at \<open>[source, target, ty]\<close>.\<close>

definition one_hot :: "nat \<Rightarrow> nat \<Rightarrow> nat \<Rightarrow> nat \<Rightarrow> nat \<Rightarrow> real list list list" where
  "one_hot l t source target ty =
     map (\<lambda>i. map (\<lambda>j. map (\<lambda>k. if i = source \<and> j = target \<and> k = ty then 1 else 0) [0..<t])
                [0..<l]) [0..<l]"

section \<open>Concrete models and inputs\<close>

text \<open>
  A single-label model over strings with class labels \<open>A\<close>, \<open>B\<close>, \<open>C\<close>, two-row token ids
  and start token 1; its base initialisation succeeds.
\<close>

definition example_model :: "int \<Rightarrow> (char, string, real list, real, unit) association" where
  "example_model ml =
     \<lparr>max_length = ml, multi_label_sequences = False, multi_label = False,
      pad_token = ''<PAD>'', classes = [''<PAD>'', ''A'', ''B'', ''C''], encoder_start = 1,
      text_to_ids = (\<lambda>X. []), inference = (\<lambda>X. []), np_mean = np_mean_axis0,
      to_indico = (\<lambda>X subseqs labels probs. ()), base_initialize = Inr ()\<rparr>"

definition example_window :: "nat \<Rightarrow> int list \<Rightarrow> encoded_output" where
  "example_window first_id locs = \<lparr>token_ids = [[first_id, 0]], char_locs = locs\<rparr>"

section \<open>Slices with bounds that are not negative\<close>

lemma slice_bound_nonneg: "0 \<le> i \<Longrightarrow> slice_bound n i = min n (nat i)"
  by (simp add: slice_bound_def)

lemma py_slice_to_end: "0 \<le> s \<Longrightarrow> py_slice s None xs = drop (nat s) xs"
  by (simp add: py_slice_def slice_bound_nonneg Let_def min_def)

lemma py_slice_between:
  assumes "0 \<le> s" and "0 \<le> e"
  shows "py_slice s (Some e) xs = drop (nat s) (take (nat e) xs)"
proof -
  have "take (min (length xs) (nat e) - min (length xs) (nat s)) (drop (min (length xs) (nat s)) xs)
        = drop (nat s) (take (nat e) xs)"
    by (cases "nat s \<le> length xs"; cases "nat e \<le> length xs")
       (simp_all add: min_def drop_take)
  with assms show ?thesis
    by (simp add: py_slice_def slice_bound_nonneg Let_def)
qed

lemma step_size_nonneg: "2 \<le> ml \<Longrightarrow> 0 \<le> step_size ml"
  by (simp add: step_size_def chunk_size_def)

section \<open>Claims about the trusted range\<close>


section \<open>The reconciliation loop\<close>

lemma bind_err_simps [simp]:
  "bind_err (Inl e) f = Inl e"
  "bind_err (Inr x) f = f x"
  by (simp_all add: bind_err_def)

lemma bind_err_Inr [simp]: "bind_err m Inr = m"
  by (simp add: bind_err_def split: sum.splits)

lemma tokens_loop_append:
  "tokens_loop X d st (ts @ us) = bind_err (tokens_loop X d st ts) (\<lambda>st'. tokens_loop X d st' us)"
  by (induction ts arbitrary: st) (auto simp: bind_err_def split: sum.splits)

lemma length_py_slice:
  "length xs = length ys \<Longrightarrow> length (py_slice s e xs) = length (py_slice s e ys)"
  by (simp add: py_slice_def Let_def)

lemma length_trusted:
  "length xs = length ys \<Longrightarrow> length (trusted ml a b xs) = length (trusted ml a b ys)"
  by (simp add: trusted_def py_slice_def Let_def split: prod.splits)

lemma trusted_whole: "trusted ml True True xs = xs"
  by (simp add: trusted_def trusted_bounds_def py_slice_def slice_bound_def)

lemma window_tokens_whole_append:
  assumes "length a1 = length b1" "length b1 = length c1"
    and "length a2 = length b2" "length b2 = length c2"
  shows "window_tokens ml True True (a1 @ a2 @ a3) (b1 @ b2 @ b3) (c1 @ c2 @ c3) =
         zip a1 (zip b1 c1) @ zip a2 (zip b2 c2) @ zip a3 (zip b3 c3)"
  using assms by (simp add: window_tokens_def trusted_whole)

lemma window_tokens_lengths:
  assumes "length ls = length cs" "length ps = length cs"
  shows "length (trusted ml a b ls) = length (trusted ml a b cs)"
    and "length (trusted ml a b cs) = length (trusted ml a b ps)"
  using assms by (auto intro: length_trusted)

lemma chunk_step_at:
  assumes "py_get arr (int i) = Inr enc"
    and "starts_document (encoder_start self) enc = Inr a"
    and "ends_document (encoder_start self) arr i = Inr b"
  shows "chunk_step self X arr st i (ls, ps) =
         bind_err (tokens_loop X (doc_idx (open_window a st)) (doc (open_window a st))
                     (window_tokens (max_length self) a b ls (char_locs enc) ps))
           (close_window self b (open_window a st))"
  using assms by (simp add: chunk_step_def Let_def)

lemma close_window_continue [simp]: "close_window self False st d = Inr (st\<lparr>doc := d\<rparr>)"
  by (simp add: close_window_def)

lemma open_window_False [simp]: "open_window False st = st"
  by (simp add: open_window_def)

lemma close_window_doc_irrelevant:
  "close_window self b (st\<lparr>doc := d'\<rparr>) d = close_window self b st d"
  by (simp add: close_window_def split: option.splits)


text \<open>
  C3. A document presented as three windows (first, middle, last) reconciles to the same
  spans (texts, labels, probability aggregates) as one pass of the same loop over the
  concatenation of the three trusted slices, taken as a single window. This holds for
  every \<open>max_length\<close>, in particular for \<open>max_length = 12\<close>, where \<open>chunk_size = 10\<close>
  and \<open>step = 3\<close>; the labels of the three slices may be any.
\<close>

theorem three_windows_stitch:
  assumes s1: "starts_document (encoder_start self) e1 = Inr True"
    and s2: "starts_document (encoder_start self) e2 = Inr False"
    and s3: "starts_document (encoder_start self) e3 = Inr False"
    and n1: "length l1 = length (char_locs e1)" "length p1 = length (char_locs e1)"
    and n2: "length l2 = length (char_locs e2)" "length p2 = length (char_locs e2)"
  shows "reconcile self X [e1, e2, e3] [(l1, p1), (l2, p2), (l3, p3)] =
         reconcile self X
           [e1\<lparr>char_locs := trusted (max_length self) True False (char_locs e1)
                 @ trusted (max_length self) False False (char_locs e2)
                 @ trusted (max_length self) False True (char_locs e3)\<rparr>]
           [(trusted (max_length self) True False l1
               @ trusted (max_length self) False False l2
               @ trusted (max_length self) False True l3,
             trusted (max_length self) True False p1
               @ trusted (max_length self) False False p2
               @ trusted (max_length self) False True p3)]"
proof -
  let ?m = "max_length self"
  let ?s = "encoder_start self"
  let ?arr = "[e1, e2, e3]"
  let ?T1 = "window_tokens ?m True False l1 (char_locs e1) p1"
  let ?T2 = "window_tokens ?m False False l2 (char_locs e2) p2"
  let ?T3 = "window_tokens ?m False True l3 (char_locs e3) p3"
  let ?ecat = "e1\<lparr>char_locs := trusted ?m True False (char_locs e1)
                 @ trusted ?m False False (char_locs e2)
                 @ trusted ?m False True (char_locs e3)\<rparr>"
  let ?st0 = "open_window True (initial_state :: ('a, 'b, 'c, 'd) loop_state)"
  have c1: "chunk_step self X ?arr st 0 (l1, p1) =
            bind_err (tokens_loop X (doc_idx (open_window True st)) (doc (open_window True st)) ?T1)
              (close_window self False (open_window True st))" for st
    by (rule chunk_step_at) (simp_all add: py_get_def s1 s2 ends_document_def)
  have c2: "chunk_step self X ?arr st (Suc 0) (l2, p2) =
            bind_err (tokens_loop X (doc_idx (open_window False st)) (doc (open_window False st)) ?T2)
              (close_window self False (open_window False st))" for st
    by (rule chunk_step_at) (simp_all add: py_get_def s2 s3 ends_document_def)
  have c3: "chunk_step self X ?arr st (Suc (Suc 0)) (l3, p3) =
            bind_err (tokens_loop X (doc_idx (open_window False st)) (doc (open_window False st)) ?T3)
              (close_window self True (open_window False st))" for st
    by (rule chunk_step_at) (simp_all add: py_get_def s3 ends_document_def)
  have sd: "starts_document ?s ?ecat = Inr True"
    using s1 by (simp add: starts_document_def)
  have cc: "chunk_step self X [?ecat] st 0 (ls, ps) =
            bind_err (tokens_loop X (doc_idx (open_window True st)) (doc (open_window True st))
                        (window_tokens ?m True True ls (char_locs ?ecat) ps))
              (close_window self True (open_window True st))" for st ls ps
    by (rule chunk_step_at) (simp_all add: py_get_def sd ends_document_def)
  have toks: "window_tokens ?m True True
                (trusted ?m True False l1 @ trusted ?m False False l2 @ trusted ?m False True l3)
                (trusted ?m True False (char_locs e1) @ trusted ?m False False (char_locs e2)
                   @ trusted ?m False True (char_locs e3))
                (trusted ?m True False p1 @ trusted ?m False False p2 @ trusted ?m False True p3)
              = ?T1 @ ?T2 @ ?T3"
    using window_tokens_lengths [OF n1, of ?m True False]
      window_tokens_lengths [OF n2, of ?m False False]
    by (simp add: window_tokens_whole_append) (simp add: window_tokens_def)
  have lhs: "predict_loop self X ?arr initial_state 0 [(l1, p1), (l2, p2), (l3, p3)] =
        bind_err (tokens_loop X (doc_idx ?st0) (doc ?st0) (?T1 @ ?T2 @ ?T3))
          (close_window self True ?st0)"
    by (simp add: c1 c2 c3 tokens_loop_append close_window_doc_irrelevant
          bind_err_def split: sum.splits)
  have rhs: "predict_loop self X [?ecat] initial_state 0
          [(trusted ?m True False l1 @ trusted ?m False False l2 @ trusted ?m False True l3,
            trusted ?m True False p1 @ trusted ?m False False p2 @ trusted ?m False True p3)] =
        bind_err (tokens_loop X (doc_idx ?st0) (doc ?st0) (?T1 @ ?T2 @ ?T3))
          (close_window self True ?st0)"
    by (simp add: cc toks)
  show ?thesis
    unfolding reconcile_def lhs rhs ..
qed









lemma window_tokens_whole:
  "window_tokens ml True True ls cs ps = zip ls (zip cs ps)"
  by (simp add: window_tokens_def trusted_whole)

lemma single_window:
  assumes "starts_document (encoder_start self) enc = Inr True"
  shows "reconcile self X [enc] [(ls, ps)] =
         bind_err (bind_err (tokens_loop X 0 (Some fresh_doc) (zip ls (zip (char_locs enc) ps)))
                     (close_window self True (open_window True initial_state)))
           (\<lambda>st. Inr (all_subseqs st, all_labels st, all_probs st))"
proof -
  have "chunk_step self X [enc] st 0 (ls, ps) =
        bind_err (tokens_loop X (doc_idx (open_window True st)) (doc (open_window True st))
                    (window_tokens (max_length self) True True ls (char_locs enc) ps))
          (close_window self True (open_window True st))" for st :: "('a, 'b, 'c, 'd) loop_state"
    by (rule chunk_step_at) (simp_all add: py_get_def assms ends_document_def)
  then show ?thesis
    by (simp add: reconcile_def window_tokens_whole open_window_def initial_state_def)
qed









lemma three_windows_value:
  "reconcile (example_model 12) [''abcdefghijklmn'']
     [example_window 1 [- 1, 1, 2, 3, 4, 5, 6, 7, 8, 9, 10, 11, 12, 13, 14, - 1]]
     [(replicate 6 ''A'' @ replicate 3 ''B'' @ replicate 7 ''C'',
       replicate 6 [0, 1, 0, 0] @ replicate 3 [0, 0, 1, 0] @ replicate 7 [0, 0, 0, 1])] =
   Inr ([[''abcde'', ''fgh'', ''ijklmn'']], [[''A'', ''B'', ''C'']],
        [[py_dict (zip [''<PAD>'', ''A'', ''B'', ''C''] [0, 1, 0, 0]),
          py_dict (zip [''<PAD>'', ''A'', ''B'', ''C''] [0, 0, 1, 0]),
          py_dict (zip [''<PAD>'', ''A'', ''B'', ''C''] [0, 0, 0, 1])]])"
proof -
  have r: "replicate 6 x = [x, x, x, x, x, x]" "replicate 3 x = [x, x, x]"
    "replicate 7 x = [x, x, x, x, x, x, x]" for x :: 'a
    by (simp_all add: numeral_eq_Suc)
  have upt4: "[0..<4] = [0, 1, 2, 3 :: nat]"
    by code_simp
  have sd: "starts_document (encoder_start (example_model 12))
              (example_window 1 [- 1, 1, 2, 3, 4, 5, 6, 7, 8, 9, 10, 11, 12, 13, 14, - 1]) = Inr True"
    by (simp add: example_model_def example_window_def starts_document_def py_get_def)
  show ?thesis
    unfolding single_window [OF sd]
    by (simp add: r upt4 example_model_def example_window_def token_step_def py_get_def
        py_slice_def slice_bound_def fresh_doc_def close_window_def prob_dict_def
        np_mean_axis0_def open_window_def initial_state_def)
qed

theorem three_windows_stitch_witness:
  "reconcile (example_model 12) [''abcdefghijklmn'']
     [example_window 1 [- 1, 1, 2, 3, 4, 5, 6, 7, 8, 9],
      example_window 0 [3, 4, 5, 6, 7, 8, 9, 10, 11, 12],
      example_window 0 [6, 7, 8, 9, 10, 11, 12, 13, 14, - 1]]
     [(replicate 10 ''A'', replicate 10 [0, 1, 0, 0]),
      (replicate 10 ''B'', replicate 10 [0, 0, 1, 0]),
      (replicate 10 ''C'', replicate 10 [0, 0, 0, 1])] =
   reconcile (example_model 12) [''abcdefghijklmn'']
     [example_window 1 [- 1, 1, 2, 3, 4, 5, 6, 7, 8, 9, 10, 11, 12, 13, 14, - 1]]
     [(replicate 6 ''A'' @ replicate 3 ''B'' @ replicate 7 ''C'',
       replicate 6 [0, 1, 0, 0] @ replicate 3 [0, 0, 1, 0] @ replicate 7 [0, 0, 0, 1])] \<and>
   reconcile (example_model 12) [''abcdefghijklmn'']
     [example_window 1 [- 1, 1, 2, 3, 4, 5, 6, 7, 8, 9],
      example_window 0 [3, 4, 5, 6, 7, 8, 9, 10, 11, 12],
      example_window 0 [6, 7, 8, 9, 10, 11, 12, 13, 14, - 1]]
     [(replicate 10 ''A'', replicate 10 [0, 1, 0, 0]),
      (replicate 10 ''B'', replicate 10 [0, 0, 1, 0]),
      (replicate 10 ''C'', replicate 10 [0, 0, 0, 1])] =
   Inr ([[''abcde'', ''fgh'', ''ijklmn'']], [[''A'', ''B'', ''C'']],
        [[py_dict (zip [''<PAD>'', ''A'', ''B'', ''C''] [0, 1, 0, 0]),
          py_dict (zip [''<PAD>'', ''A'', ''B'', ''C''] [0, 0, 1, 0]),
          py_dict (zip [''<PAD>'', ''A'', ''B'', ''C''] [0, 0, 0, 1])]])"
proof -
  have r: "replicate 10 x = [x, x, x, x, x, x, x, x, x, x]"
    "replicate 6 x = [x, x, x, x, x, x]" "replicate 3 x = [x, x, x]"
    "replicate 7 x = [x, x, x, x, x, x, x]" for x :: 'a
    by (simp_all add: numeral_eq_Suc)
  have eq: "reconcile (example_model 12) [''abcdefghijklmn'']
     [example_window 1 [- 1, 1, 2, 3, 4, 5, 6, 7, 8, 9],
      example_window 0 [3, 4, 5, 6, 7, 8, 9, 10, 11, 12],
      example_window 0 [6, 7, 8, 9, 10, 11, 12, 13, 14, - 1]]
     [(replicate 10 ''A'', replicate 10 [0, 1, 0, 0]),
      (replicate 10 ''B'', replicate 10 [0, 0, 1, 0]),
      (replicate 10 ''C'', replicate 10 [0, 0, 0, 1])] =
   reconcile (example_model 12) [''abcdefghijklmn'']
     [example_window 1 [- 1, 1, 2, 3, 4, 5, 6, 7, 8, 9, 10, 11, 12, 13, 14, - 1]]
     [(replicate 6 ''A'' @ replicate 3 ''B'' @ replicate 7 ''C'',
       replicate 6 [0, 1, 0, 0] @ replicate 3 [0, 0, 1, 0] @ replicate 7 [0, 0, 0, 1])]"
    using three_windows_stitch [of "example_model 12"
        "example_window 1 [- 1, 1, 2, 3, 4, 5, 6, 7, 8, 9]"
        "example_window 0 [3, 4, 5, 6, 7, 8, 9, 10, 11, 12]"
        "example_window 0 [6, 7, 8, 9, 10, 11, 12, 13, 14, - 1]"
        "replicate 10 ''A''" "replicate 10 [0, 1, 0, 0]"
        "replicate 10 ''B''" "replicate 10 [0, 0, 1, 0]"
        "[''abcdefghijklmn'']"
        "replicate 10 ''C''" "replicate 10 [0, 0, 0, 1]"]
    by (simp add: r example_model_def example_window_def starts_document_def py_get_def
        trusted_def trusted_bounds_def step_size_def chunk_size_def py_slice_def
        slice_bound_def)
  show ?thesis
    using eq three_windows_value by simp
qed

text \<open>
  C10. \<open>predict_proba\<close> returns what \<open>predict\<close> returns, for every model and every
  input.
\<close>

theorem predict_proba_is_predict: "predict_proba self X = predict self X"
  by (simp add: predict_proba_def)

section \<open>Coverage of a document by the trusted ranges\<close>

lemma drop_take_drop: "a \<le> b \<Longrightarrow> drop a (take b u) @ drop b u = drop a u"
proof -
  assume ab: "a \<le> b"
  have "drop a u = drop a (take b u @ drop b u)" by simp
  also have "\<dots> = drop a (take b u) @ drop (a - length (take b u)) (drop b u)"
    by (rule drop_append)
  also have "drop (a - length (take b u)) (drop b u) = drop b u"
    using ab by (cases "b \<le> length u") (simp_all add: min_def)
  finally show ?thesis by simp
qed

lemma trusted_first_window:
  "step_size ml = int s \<Longrightarrow> trusted ml True False xs = take (2 * s) xs"
  by (simp add: trusted_def trusted_bounds_def py_slice_between nat_mult_distrib mult.commute)

lemma trusted_middle_window:
  "step_size ml = int s \<Longrightarrow> trusted ml False False xs = drop s (take (2 * s) xs)"
  by (simp add: trusted_def trusted_bounds_def py_slice_between nat_mult_distrib mult.commute)

lemma trusted_last_window:
  "step_size ml = int s \<Longrightarrow> trusted ml False True xs = drop s xs"
  by (simp add: trusted_def trusted_bounds_def py_slice_to_end)

lemma kept_tokens_tail:
  assumes "step_size ml = int s"
  shows "strided ml (w # ws) \<Longrightarrow> 2 * s \<le> snd w \<Longrightarrow> overlapping ml (w # ws)
         \<Longrightarrow> list_all (\<lambda>v. fst v + snd v \<le> length tokens) (w # ws)
         \<Longrightarrow> fst (last (w # ws)) + snd (last (w # ws)) = length tokens
         \<Longrightarrow> kept_tokens ml tokens False (w # ws) = drop (fst w + s) tokens"
proof (induction ws arbitrary: w)
  case Nil
  then have "take (snd w) (drop (fst w) tokens) = drop (fst w) tokens"
    by simp
  then show ?case
    by (simp add: trusted_last_window [OF assms] window_at_def add.commute)
next
  case (Cons v vs)
  from Cons.prems assms have v: "fst v = fst w + s" "2 * s \<le> snd v"
    by simp_all
  have ih: "kept_tokens ml tokens False (v # vs) = drop (fst v + s) tokens"
    using Cons.prems v by (intro Cons.IH) simp_all
  have "take (2 * s) (take (snd w) (drop (fst w) tokens)) = take (2 * s) (drop (fst w) tokens)"
    using Cons.prems(2) by (simp add: min_def)
  then have "kept_tokens ml tokens False (w # v # vs) =
        drop s (take (2 * s) (drop (fst w) tokens)) @ drop (2 * s) (drop (fst w) tokens)"
    by (simp add: ih v trusted_middle_window [OF assms] window_at_def add.commute
        add.left_commute mult_2)
  also have "\<dots> = drop s (drop (fst w) tokens)"
    by (rule drop_take_drop) simp
  finally show ?case
    by (simp add: add.commute)
qed

lemma kept_tokens_all:
  assumes "step_size ml = int s"
    and "strided ml ws" and "overlapping ml ws" and "spans_document (length tokens) ws"
  shows "kept_tokens ml tokens True ws = tokens"
proof (cases ws)
  case Nil
  with assms(4) show ?thesis by (simp add: spans_document_def)
next
  case (Cons w vs)
  note ws = this
  from assms(4) ws have sp: "fst w = 0" "fst (last (w # vs)) + snd (last (w # vs)) = length tokens"
    "list_all (\<lambda>v. fst v + snd v \<le> length tokens) (w # vs)"
    by (simp_all add: spans_document_def)
  show ?thesis
  proof (cases vs)
    case Nil
    with sp ws show ?thesis
      by (simp add: trusted_whole window_at_def)
  next
    case (Cons v us)
    from assms(2,3) ws Cons assms(1) sp have v: "fst v = s" "2 * s \<le> snd v" "2 * s \<le> snd w"
      by simp_all
    have tail: "kept_tokens ml tokens False (v # us) = drop (fst v + s) tokens"
      using assms(2,3) ws Cons sp v by (intro kept_tokens_tail [OF assms(1)]) simp_all
    have "take (2 * s) (take (snd w) (drop (fst w) tokens)) = take (2 * s) tokens"
      using v sp by (simp add: min_def)
    then show ?thesis
      using ws Cons tail v
      by (simp add: trusted_first_window [OF assms(1)] window_at_def mult_2)
  qed
qed

lemma count_list_distinct: "distinct xs \<Longrightarrow> x \<in> set xs \<Longrightarrow> count_list xs x = 1"
  by (induction xs) (auto simp: count_list_0_iff)

lemma count_kept_index:
  assumes "i < length locs" "P (i, locs ! i)"
  shows "count_list (map fst (filter P (zip [0..<length locs] locs))) i = 1"
proof (rule count_list_distinct)
  show "distinct (map fst (filter P (zip [0..<length locs] locs)))"
    by (rule distinct_map_filter) simp
  have "(i, locs ! i) \<in> set (zip [0..<length locs] locs)"
    unfolding set_zip using assms(1) by (intro CollectI exI [of _ i]) simp
  with assms(2) have "(i, locs ! i) \<in> set (filter P (zip [0..<length locs] locs))"
    by simp
  then show "i \<in> set (map fst (filter P (zip [0..<length locs] locs)))"
    by force
qed

text \<open>
  C2, as amended. Let the windows of a document be listed from left to right, each
  overlapping the previous one by at least \<open>2 * step\<close> tokens with \<open>step > 0\<close>, the
  first starting at the first token and the last ending at the last token, and let
  consecutive windows start exactly \<open>step\<close> tokens apart. Then every token position whose
  character offset is not the padding mark \<open>-1\<close> is consumed exactly once.
\<close>

theorem coverage_strided:
  assumes "0 < step_size ml"
    and "overlapping ml ws"
    and "spans_document (length locs) ws"
    and "strided ml ws"
    and "i < length locs"
    and "locs ! i \<noteq> - 1"
  shows "count_list (kept_positions ml locs ws) i = 1"
proof -
  from assms(1) obtain s where s: "step_size ml = int s"
    by (metis nonneg_int_cases less_imp_le)
  have "kept_tokens ml (zip [0..<length locs] locs) True ws = zip [0..<length locs] locs"
    using assms(2,3,4) by (intro kept_tokens_all [OF s]) simp_all
  then show ?thesis
    using assms(5,6) by (simp add: kept_positions_def count_kept_index)
qed


theorem coverage_strided_witness:
  "0 < step_size 12 \<and>
   overlapping 12 [(0, 10), (3, 10), (6, 10)] \<and>
   spans_document (length [- 1, 1, 2, 3, 4, 5, 6, 7, 8, 9, 10, 11, 12, 13, 14, - 1 :: int])
     [(0, 10), (3, 10), (6, 10)] \<and>
   strided 12 [(0, 10), (3, 10), (6, 10)] \<and>
   5 < length [- 1, 1, 2, 3, 4, 5, 6, 7, 8, 9, 10, 11, 12, 13, 14, - 1 :: int] \<and>
   [- 1, 1, 2, 3, 4, 5, 6, 7, 8, 9, 10, 11, 12, 13, 14, - 1 :: int] ! 5 \<noteq> - 1 \<and>
   count_list
     (kept_positions 12 [- 1, 1, 2, 3, 4, 5, 6, 7, 8, 9, 10, 11, 12, 13, 14, - 1]
        [(0, 10), (3, 10), (6, 10)]) 5 = 1"
proof -
  let ?locs = "[- 1, 1, 2, 3, 4, 5, 6, 7, 8, 9, 10, 11, 12, 13, 14, - 1 :: int]"
  let ?ws = "[(0, 10), (3, 10), (6, 10)] :: (nat \<times> nat) list"
  have h1: "0 < step_size 12"
    by (simp add: step_size_def chunk_size_def)
  have h2: "overlapping 12 ?ws"
    by (simp add: step_size_def chunk_size_def)
  have h3: "spans_document (length ?locs) ?ws"
    by (simp add: spans_document_def)
  have h4: "strided 12 ?ws"
    by (simp add: step_size_def chunk_size_def)
  have h5: "5 < length ?locs" by simp
  have h6: "?locs ! 5 \<noteq> - 1" by simp
  from coverage_strided [OF h1 h2 h3 h4 h5 h6] h1 h2 h3 h4 h5 h6 show ?thesis
    by blast
qed

text \<open>
  C2, as stated, fails: with \<open>max_length = 12\<close> (\<open>step = 3\<close>) two windows of ten tokens at
  offsets 0 and 4 overlap by \<open>6 = 2 * step\<close> tokens, and the token at position 6 lies in
  no trusted range.
\<close>

theorem coverage_overlap_counterexample:
  "0 < step_size 12 \<and>
   overlapping 12 [(0, 10), (4, 10)] \<and>
   spans_document (length [- 1, 1, 2, 3, 4, 5, 6, 7, 8, 9, 10, 11, 12, - 1 :: int])
     [(0, 10), (4, 10)] \<and>
   6 < length [- 1, 1, 2, 3, 4, 5, 6, 7, 8, 9, 10, 11, 12, - 1 :: int] \<and>
   [- 1, 1, 2, 3, 4, 5, 6, 7, 8, 9, 10, 11, 12, - 1 :: int] ! 6 \<noteq> - 1 \<and>
   count_list
     (kept_positions 12 [- 1, 1, 2, 3, 4, 5, 6, 7, 8, 9, 10, 11, 12, - 1] [(0, 10), (4, 10)])
     6 = 0"
  by code_simp

end
